theory Spec2Isabelle
  imports Main "HOL-Library.Word"
begin

section \<open>Errors and outcomes\<close>

text \<open>
  A Go \<open>error\<close> value. \<open>errors.New(s)\<close> is \<open>ErrNew s\<close>; \<open>fmt.Errorf("p: %w", e)\<close> is
  \<open>ErrWrap p e\<close> (the prefix is kept with its trailing separator); the errors of the
  collaborators outside \<open>deploy.go\<close> are whatever \<open>error\<close> value the collaborator returned.
  A nil error is \<open>None :: error option\<close>.
\<close>

datatype error = ErrNew string | ErrWrap string error

fun Error_msg :: "error \<Rightarrow> string" where
  "Error_msg (ErrNew s) = s"
| "Error_msg (ErrWrap p e) = p @ Error_msg e"

section \<open>Data model\<close>

text \<open>
  \<open>api.AppCompact\<close>, with the fields \<open>deploy.go\<close> reads. The organization is reached
  through \<open>appCompact.Organization.Slug\<close> without a nil test, so it is a nested record.
\<close>

record OrganizationBasic =
  Slug :: string

record AppCompact =
  Name :: string
  Deployed :: bool
  PlatformVersion :: string
  Organization :: OrganizationBasic

text \<open>\<open>DeployWithConfigArgs\<close> (deploy.go, lines 122-126).\<close>

record DeployWithConfigArgs =
  ForceMachines :: bool
  ForceNomad :: bool
  ForceYes :: bool

text \<open>
  Modelled from the spec: the constant \<open>appconfig.MachinesPlatform\<close> is declared outside
  \<open>src/\<close>; it is the platform marker of the modern, machine-based backend.
\<close>

definition MachinesPlatform :: string where
  "MachinesPlatform = ''machines''"

text \<open>
  Modelled from the spec: the declarations of \<open>appconfig.Config\<close> and \<open>appconfig.Build\<close> are
  outside \<open>src/\<close>. The records carry the fields \<open>deploy.go\<close> reads or writes
  (\<open>AppName\<close>, \<open>PrimaryRegion\<close>, \<open>Env\<close>, \<open>Build\<close> and, in the build section, \<open>Args\<close>,
  \<open>Image\<close>, \<open>Builtin\<close>, \<open>Settings\<close>, \<open>Builder\<close>, \<open>Buildpacks\<close>), and one field for the value
  of each accessor method \<open>deploy.go\<close> calls on the configuration: \<open>Dockerfile()\<close>,
  \<open>Ignorefile()\<close>, \<open>DockerBuildTarget()\<close>, \<open>ConfigFilePath()\<close>, \<open>BuildStrategies()\<close> and
  \<open>SanitizedDefinition()\<close>.

  A Go map is a partial function; a nil map reads as the empty map. Where the source tests
  a map against nil (\<open>build.Args\<close> in \<open>mergeBuildArgs\<close>) the field is an option, \<open>None\<close>
  being nil. \<open>Build\<close> is a pointer that the source tests against nil, hence an option.
  The values of \<open>Settings\<close> (Go's \<open>interface{}\<close>) and the sanitized definition are opaque.
\<close>

typedecl interface_value

record Build =
  Builder :: string
  Args :: "(string \<rightharpoonup> string) option"
  Buildpacks :: "string list"
  Image :: string
  Settings :: "string \<rightharpoonup> interface_value"
  Builtin :: string

record Config =
  AppName :: string
  PrimaryRegion :: string
  Env :: "string \<rightharpoonup> string"
  Build :: "Build option"
  Dockerfile :: string
  Ignorefile :: string
  DockerBuildTarget :: string
  ConfigFilePath :: string
  BuildStrategies :: "string list"
  SanitizedDefinition :: "string \<rightharpoonup> interface_value"

text \<open>
  Modelled from the spec: \<open>Config.SetEnvVariable\<close> is outside \<open>src/\<close>. The environment
  mapping has unique keys and the last write wins; the method allocates the map when it is
  nil, as the comment at deploy.go line 160 says.
\<close>

definition SetEnvVariable :: "Config \<Rightarrow> string \<Rightarrow> string \<Rightarrow> Config" where
  "SetEnvVariable c name val = c\<lparr>Env := (Env c)(name \<mapsto> val)\<rparr>"

text \<open>Reading a Go \<open>map[string]string\<close>: a missing key reads as the empty string.\<close>

definition map_index :: "(string \<rightharpoonup> string) \<Rightarrow> string \<Rightarrow> string" where
  "map_index m k = (case m k of None \<Rightarrow> [] | Some v \<Rightarrow> v)"

text \<open>\<open>imgsrc.DeploymentImage\<close>: the fields \<open>deploy.go\<close> reads, and the image identifier.\<close>

record DeploymentImage =
  ID :: string
  Tag :: string
  Size :: int

text \<open>
  The options handed to the image engine. \<open>imgsrc.RefOptions\<close> has the fields set at
  deploy.go lines 331-337 (prefix \<open>ro_\<close>), \<open>imgsrc.ImageOptions\<close> those set at lines
  350-390 (prefix \<open>io_\<close>); the prefixes keep the field names of the two records apart.
\<close>

record RefOptions =
  ro_AppName :: string
  ro_WorkingDir :: string
  ro_Publish :: bool
  ro_ImageRef :: string
  ro_ImageLabel :: string

record ImageOptions =
  io_AppName :: string
  io_WorkingDir :: string
  io_Publish :: bool
  io_ImageLabel :: string
  io_NoCache :: bool
  io_BuiltIn :: string
  io_BuiltInSettings :: "string \<rightharpoonup> interface_value"
  io_Builder :: string
  io_Buildpacks :: "string list"
  io_BuildSecrets :: "string \<rightharpoonup> string"
  io_BuildArgs :: "string \<rightharpoonup> string"
  io_DockerfilePath :: string
  io_IgnorefilePath :: string
  io_Target :: string

text \<open>
  The resolver built at deploy.go lines 309 and 322: the four arguments of
  \<open>imgsrc.NewDockerDaemonType\<close> and the application name.
\<close>

record Resolver =
  allowLocal :: bool
  allowRemote :: bool
  inCI :: bool
  useNixpacks :: bool
  resolver_AppName :: string

text \<open>
  \<open>MachineDeploymentArgs\<close> as filled at deploy.go lines 171-181 (prefix \<open>md_\<close>). The image
  is the pointer \<open>determineImage\<close> returned. The two timeouts are \<open>time.Duration\<close> values,
  64-bit counts of nanoseconds.
\<close>

record MachineDeploymentArgs =
  md_AppCompact :: AppCompact
  md_DeploymentImage :: "DeploymentImage option"
  md_Strategy :: string
  md_EnvFromFlags :: "string list"
  md_PrimaryRegionFlag :: string
  md_BuildOnly :: bool
  md_SkipHealthChecks :: bool
  md_WaitTimeout :: "64 word"
  md_LeaseTimeout :: "64 word"

text \<open>A machine deployment is used only as a handle on which \<open>DeployMachinesApp\<close> is called.\<close>

type_synonym MachineDeployment = nat

text \<open>\<open>api.DeployImageInput\<close> as filled in \<open>createRelease\<close>; \<open>api.Release\<close> and
  \<open>api.ReleaseCommand\<close> with the fields \<open>deploy.go\<close> reads.\<close>

record DeployImageInput =
  di_AppID :: string
  di_Image :: string
  di_Strategy :: "string option"
  di_Definition :: "string \<rightharpoonup> interface_value"

record Release =
  rel_ID :: string
  rel_Version :: int
  rel_DeploymentStrategy :: string
  rel_EvaluationID :: string

record ReleaseCommand =
  rc_ID :: string
  rc_Command :: string

text \<open>
  The invocation context \<open>ctx\<close>: the value of every flag \<open>deploy.go\<close> reads from it, the
  application name (\<open>appconfig.NameFromContext\<close>) and the working directory
  (\<open>state.WorkingDirectory\<close>). Go's \<open>int\<close> flags are 64-bit.
\<close>

record Context =
  NameFromContext :: string
  WorkingDirectory :: string
  flag_image :: string
  flag_image_label :: string
  flag_region :: string
  flag_strategy :: string
  flag_env :: "string list"
  flag_dockerfile :: string
  flag_ignorefile :: string
  flag_build_arg :: "string list"
  flag_build_secret :: "string list"
  flag_build_target :: string
  flag_build_only :: bool
  flag_push :: bool
  flag_no_cache :: bool
  flag_nixpacks :: bool
  flag_remote_only :: bool
  flag_local_only :: bool
  flag_detach :: bool
  flag_wait_timeout :: "64 word"
  flag_lease_timeout :: "64 word"

section \<open>The collaborators outside deploy.go\<close>

text \<open>
  Everything \<open>deploy.go\<close> calls and does not define is a field of the record \<open>World\<close>: the
  answer the collaborator gives to each argument during this invocation. A Go result
  \<open>(T, error)\<close> of which the source uses \<open>T\<close> only when the error is nil is a sum. The two
  image operations return both components, because the source itself provides for
  \<open>(nil, nil)\<close> (deploy.go line 395). \<open>EnsureV2Config\<close> is a method on the configuration
  pointer and may rewrite it, so it returns the configuration as well. Every collaborator
  also receives \<open>ctx\<close>; that dependency is part of the \<open>World\<close> value.
\<close>

record World =
  GetAppCompact :: "string \<Rightarrow> error + AppCompact"
  GetAppsV2DefaultOnForOrg :: "string \<Rightarrow> bool \<times> error option"
  EnsureV2Config :: "Config \<Rightarrow> error option \<times> Config"
  IsCI :: bool
  ResolveDockerfile :: "string \<Rightarrow> string"
  Getwd :: "error + string"
  ResolveReference :: "Resolver \<Rightarrow> RefOptions \<Rightarrow> DeploymentImage option \<times> error option"
  BuildImage :: "Resolver \<Rightarrow> ImageOptions \<Rightarrow> DeploymentImage option \<times> error option"
  NewMachineDeployment :: "MachineDeploymentArgs \<Rightarrow> error + MachineDeployment"
  DeployMachinesApp :: "MachineDeployment \<Rightarrow> error option"
  ToUpper :: "string \<Rightarrow> string"
  DeployImage :: "DeployImageInput \<Rightarrow> error + Release \<times> ReleaseCommand option"
  watch_ReleaseCommand :: "string \<Rightarrow> string \<Rightarrow> error option"
  GetAppReleaseNomad :: "string \<Rightarrow> string \<Rightarrow> error + Release"
  watch_Deployment :: "string \<Rightarrow> string \<Rightarrow> error option"

text \<open>
  The calls an invocation makes, in order, each with the error it returned (\<open>None\<close> for
  nil). \<open>resolveDockerfilePath\<close> has two call sites in \<open>determineImage\<close>; what it calls
  from the first one, the advisory comparison of line 316, is recorded under
  \<open>Call_advisory\<close>, so that the record tells the two sites apart. Progress text
  (\<open>render.NewTextBlock\<close>, \<open>tb.Done\<close>, \<open>tb.Printf\<close>, \<open>logger.Debug\<close>) is not recorded.
\<close>

datatype call =
    Call_GetAppCompact string
  | Call_GetAppsV2DefaultOnForOrg string
  | Call_EnsureV2Config
  | Call_Warnf string
  | Call_ParseKVStringsToMap "string list"
  | Call_Abs string
  | Call_ResolveReference RefOptions
  | Call_StartHeartbeat
  | Call_BuildImage ImageOptions
  | Call_StopHeartbeat
  | Call_NewMachineDeployment MachineDeploymentArgs
  | Call_DeployMachinesApp MachineDeployment
  | Call_CaptureException error
  | Call_DeployImage DeployImageInput
  | Call_watch_ReleaseCommand string string
  | Call_GetAppReleaseNomad string string
  | Call_watch_Deployment string string
  | Call_advisory call

type_synonym event = "call \<times> error option"

text \<open>A Go function either returns or panics (here: a nil pointer dereference).\<close>

datatype 'a go = Panic | Return 'a

definition error_of :: "error + 'a \<Rightarrow> error option" where
  "error_of r = (case r of Inl e \<Rightarrow> Some e | Inr _ \<Rightarrow> None)"

section \<open>Helpers from outside deploy.go\<close>

text \<open>
  Modelled from the spec: \<open>cmdutil.ParseKVStringsToMap\<close> is outside \<open>src/\<close>. It reads a list
  of \<open>KEY=VALUE\<close> entries into a map; a malformed entry fails with a parse error and no map.
  An entry is taken as well formed when it contains \<open>=\<close>, the key being the text before the
  first \<open>=\<close> and the value the text after it; keys are unique and the last write wins. The
  specification does not give the text of the parse error.
\<close>

definition parseKV :: "string \<Rightarrow> (string \<times> string) option" where
  "parseKV arg =
     (if CHR ''='' \<in> set arg
      then Some (takeWhile (\<lambda>c. c \<noteq> CHR ''='') arg, tl (dropWhile (\<lambda>c. c \<noteq> CHR ''='') arg))
      else None)"

fun ParseKVStringsToMap_into :: "(string \<rightharpoonup> string) \<Rightarrow> string list \<Rightarrow> error + (string \<rightharpoonup> string)" where
  "ParseKVStringsToMap_into out [] = Inr out"
| "ParseKVStringsToMap_into out (arg # args) =
     (case parseKV arg of
        None \<Rightarrow> Inl (ErrNew (arg @ '': must be in the format NAME=VALUE''))
      | Some (k, v) \<Rightarrow> ParseKVStringsToMap_into (out(k \<mapsto> v)) args)"

definition ParseKVStringsToMap :: "string list \<Rightarrow> error + (string \<rightharpoonup> string)" where
  "ParseKVStringsToMap args = ParseKVStringsToMap_into Map.empty args"

text \<open>
  Go's \<open>path/filepath\<close> on a Unix system (separator \<open>/\<close>, no volume names), by the rules
  its documentation gives. \<open>Clean\<close>: the path is cut at the separators; empty elements and
  \<open>.\<close> elements are dropped; a \<open>..\<close> element removes the element before it when there
  is one that is not \<open>..\<close>, is dropped at the root of a rooted path, and is kept
  otherwise; the empty result is \<open>.\<close>. \<open>Join\<close> skips leading empty elements, joins the
  rest with the separator and cleans; \<open>Dir\<close> cleans the path up to its last separator;
  \<open>Abs\<close> cleans an absolute path and joins any other path to the working directory,
  failing with the error of \<open>os.Getwd\<close>.
\<close>

fun path_elems :: "string \<Rightarrow> string list" where
  "path_elems [] = [[]]"
| "path_elems (c # cs) =
     (if c = CHR ''/'' then [] # path_elems cs
      else (case path_elems cs of [] \<Rightarrow> [[c]] | e # es \<Rightarrow> (c # e) # es))"

fun join_sep :: "string list \<Rightarrow> string" where
  "join_sep [] = []"
| "join_sep [e] = e"
| "join_sep (e # es) = e @ CHR ''/'' # join_sep es"

fun clean_elems :: "bool \<Rightarrow> string list \<Rightarrow> string list \<Rightarrow> string list" where
  "clean_elems rooted out [] = rev out"
| "clean_elems rooted out (e # es) =
     (if e = [] \<or> e = ''.'' then clean_elems rooted out es
      else if e = ''..'' then
        (case out of
           [] \<Rightarrow> if rooted then clean_elems rooted out es else clean_elems rooted [e] es
         | d # ds \<Rightarrow> if d = ''..'' then clean_elems rooted (e # out) es
                     else clean_elems rooted ds es)
      else clean_elems rooted (e # out) es)"

definition filepath_IsAbs :: "string \<Rightarrow> bool" where
  "filepath_IsAbs path = (case path of [] \<Rightarrow> False | c # _ \<Rightarrow> c = CHR ''/'')"

definition filepath_Clean :: "string \<Rightarrow> string" where
  "filepath_Clean path =
     (if path = [] then ''.''
      else let rooted = filepath_IsAbs path;
               out = join_sep (clean_elems rooted [] (path_elems path))
           in if rooted then CHR ''/'' # out
              else if out = [] then ''.'' else out)"

fun filepath_Join :: "string list \<Rightarrow> string" where
  "filepath_Join [] = []"
| "filepath_Join (e # es) =
     (if e \<noteq> [] then filepath_Clean (join_sep (e # es)) else filepath_Join es)"

definition filepath_Dir :: "string \<Rightarrow> string" where
  "filepath_Dir path = filepath_Clean (rev (dropWhile (\<lambda>c. c \<noteq> CHR ''/'') (rev path)))"

definition filepath_Abs :: "error + string \<Rightarrow> string \<Rightarrow> string \<times> error option" where
  "filepath_Abs getwd path =
     (if filepath_IsAbs path then (filepath_Clean path, None)
      else (case getwd of
              Inl err \<Rightarrow> ([], Some err)
            | Inr wd \<Rightarrow> (filepath_Join [wd, path], None)))"

text \<open>\<open>strings.ReplaceAll\<close> for a one-byte pattern and a one-byte replacement.\<close>

definition ReplaceAll :: "string \<Rightarrow> char \<Rightarrow> char \<Rightarrow> string" where
  "ReplaceAll s old new = map (\<lambda>c. if c = old then new else c) s"

section \<open>Backend selection\<close>

text \<open>
  \<open>useMachines\<close> (deploy.go, lines 234-250). The error of \<open>GetAppsV2DefaultOnForOrg\<close> is
  bound to the blank identifier: it appears in the recorded call and nowhere else. The
  \<open>switch\<close> is the chain of conditionals in the source's order.
\<close>

definition useMachines ::
  "World \<Rightarrow> Config \<Rightarrow> AppCompact \<Rightarrow> DeployWithConfigArgs \<Rightarrow> (error + bool) \<times> event list" where
  "useMachines w appConfig appCompact args =
     (let slug = Slug (Organization appCompact);
          lookup = GetAppsV2DefaultOnForOrg w slug;
          appsV2DefaultOn = fst lookup;
          calls = [(Call_GetAppsV2DefaultOnForOrg slug, snd lookup)]
      in if \<not> Deployed appCompact \<and> ForceNomad args then (Inr False, calls)
         else if \<not> Deployed appCompact \<and> ForceMachines args then (Inr True, calls)
         else if \<not> Deployed appCompact \<and> PlatformVersion appCompact = MachinesPlatform
           then (Inr True, calls)
         else if Deployed appCompact
           then (Inr (PlatformVersion appCompact = MachinesPlatform), calls)
         else if ForceYes args then (Inr appsV2DefaultOn, calls)
         else (Inr appsV2DefaultOn, calls))"

text \<open>
  The decision table of section 4.3 of the specification, written from the specification's
  words: a list of rows (condition, result), read top to bottom, the first row whose
  condition holds giving the result (\<open>True\<close> is the modern backend, \<open>False\<close> the legacy one),
  and the organization's default-on setting when no row applies.
\<close>

fun first_match :: "(bool \<times> bool) list \<Rightarrow> bool \<Rightarrow> bool" where
  "first_match [] d = d"
| "first_match ((c, r) # rows) d = (if c then r else first_match rows d)"

definition selectBackend_table :: "bool \<Rightarrow> bool \<Rightarrow> bool \<Rightarrow> string \<Rightarrow> bool \<Rightarrow> bool" where
  "selectBackend_table neverDeployed forceLegacy forceModern marker orgDefaultOn =
     first_match
       [(neverDeployed \<and> forceLegacy, False),
        (neverDeployed \<and> forceModern, True),
        (neverDeployed \<and> marker = MachinesPlatform, True),
        (\<not> neverDeployed, marker = MachinesPlatform)]
       orgDefaultOn"

section \<open>Image determination\<close>

text \<open>
  \<open>fetchImageRef\<close> (deploy.go, lines 460-472). \<open>cfg\<close> is a pointer tested against nil.
\<close>

definition fetchImageRef :: "Context \<Rightarrow> Config option \<Rightarrow> error + string" where
  "fetchImageRef ctx cfg =
     (let ref = flag_image ctx
      in if ref \<noteq> [] then Inr ref
         else (case cfg of
                 None \<Rightarrow> Inr ref
               | Some c \<Rightarrow>
                   (case Build c of
                      None \<Rightarrow> Inr ref
                    | Some b \<Rightarrow> (let ref = Image b in if ref \<noteq> [] then Inr ref else Inr ref))))"

text \<open>
  \<open>mergeBuildArgs\<close> (deploy.go, lines 443-458). A nil \<open>args\<close> is replaced by a fresh map;
  the loop stores every entry of the CLI map into \<open>args\<close>, which is \<open>args ++ cliBuildArgs\<close>
  whatever the order of iteration. A Go map is a reference: when the caller's map is not
  nil the stores land in it, so the function also returns the caller's map as it is
  afterwards (second component).
\<close>

definition mergeBuildArgs ::
  "Context \<Rightarrow> (string \<rightharpoonup> string) option \<Rightarrow>
     (error + (string \<rightharpoonup> string)) \<times> (string \<rightharpoonup> string) option \<times> event list" where
  "mergeBuildArgs ctx args =
     (let args0 = (case args of None \<Rightarrow> Map.empty | Some m \<Rightarrow> m);
          parsed = ParseKVStringsToMap (flag_build_arg ctx);
          calls = [(Call_ParseKVStringsToMap (flag_build_arg ctx), error_of parsed)]
      in case parsed of
           Inl err \<Rightarrow> (Inl (ErrWrap ''invalid build args: '' err), args, calls)
         | Inr cliBuildArgs \<Rightarrow>
             (Inr (args0 ++ cliBuildArgs),
              (case args of None \<Rightarrow> None | Some m \<Rightarrow> Some (m ++ cliBuildArgs)),
              calls))"

text \<open>
  \<open>resolveDockerfilePath\<close> and \<open>resolveIgnorefilePath\<close> (deploy.go, lines 409-441). The
  deferred function runs on return, where \<open>err\<close> is still nil, and replaces the pair by
  the result of \<open>filepath.Abs\<close> when the path is not empty.
\<close>

definition resolveDockerfilePath ::
  "World \<Rightarrow> Context \<Rightarrow> Config \<Rightarrow> (string \<times> error option) \<times> event list" where
  "resolveDockerfilePath w ctx appConfig =
     (let path = Dockerfile appConfig;
          path = (if path \<noteq> []
                  then filepath_Join [filepath_Dir (ConfigFilePath appConfig), path]
                  else flag_dockerfile ctx)
      in if path \<noteq> []
         then (filepath_Abs (Getwd w) path,
               [(Call_Abs path, snd (filepath_Abs (Getwd w) path))])
         else ((path, None), []))"

definition resolveIgnorefilePath ::
  "World \<Rightarrow> Context \<Rightarrow> Config \<Rightarrow> (string \<times> error option) \<times> event list" where
  "resolveIgnorefilePath w ctx appConfig =
     (let path = Ignorefile appConfig;
          path = (if path \<noteq> []
                  then filepath_Join [filepath_Dir (ConfigFilePath appConfig), path]
                  else flag_ignorefile ctx)
      in if path \<noteq> []
         then (filepath_Abs (Getwd w) path,
               [(Call_Abs path, snd (filepath_Abs (Getwd w) path))])
         else ((path, None), []))"

text \<open>\<open>new(appconfig.Build)\<close>: the zero value of the build section.\<close>

definition new_Build :: Build where
  "new_Build = \<lparr>Builder = [], Args = None, Buildpacks = [], Image = [],
                 Settings = Map.empty, Builtin = []\<rparr>"

text \<open>
  \<open>determineImage\<close> builds from source at deploy.go lines 344-404. The model follows the
  source in three consecutive parts, each handing the options built so far to the next.
  On every early \<open>return\<close> the named result \<open>img\<close> is still nil.

  The last part (lines 386-404): the build target, then \<open>BuildImage\<close> between the start
  of the heartbeat and its deferred stop, and the test for a result without image and
  without error.
\<close>

definition determineImage_BuildImage ::
  "World \<Rightarrow> Context \<Rightarrow> Config \<Rightarrow> Resolver \<Rightarrow> ImageOptions \<Rightarrow>
     (DeploymentImage option \<times> error option) \<times> event list" where
  "determineImage_BuildImage w ctx appConfig resolver opts =
     (let opts = (if DockerBuildTarget appConfig \<noteq> []
                  then opts\<lparr>io_Target := DockerBuildTarget appConfig\<rparr>
                  else if flag_build_target ctx \<noteq> []
                  then opts\<lparr>io_Target := flag_build_target ctx\<rparr>
                  else opts)
      in case BuildImage w resolver opts of
           (img, err) \<Rightarrow>
             ((img, (if err = None \<and> img = None then Some (ErrNew ''no image specified'') else err)),
              [(Call_StartHeartbeat, None), (Call_BuildImage opts, err), (Call_StopHeartbeat, None)]))"

text \<open>The middle part (lines 378-384): the Dockerfile path and the ignore-file path.\<close>

definition determineImage_paths ::
  "World \<Rightarrow> Context \<Rightarrow> Config \<Rightarrow> Resolver \<Rightarrow> ImageOptions \<Rightarrow>
     (DeploymentImage option \<times> error option) \<times> event list" where
  "determineImage_paths w ctx appConfig resolver opts =
     (case resolveDockerfilePath w ctx appConfig of
        ((dockerfilePath, err3), ev3) \<Rightarrow>
          (let opts = opts\<lparr>io_DockerfilePath := dockerfilePath\<rparr>
           in case err3 of
                Some err \<Rightarrow> ((None, Some err), ev3)
              | None \<Rightarrow>
                  (case resolveIgnorefilePath w ctx appConfig of
                     ((ignorefilePath, err4), ev4) \<Rightarrow>
                       (let opts = opts\<lparr>io_IgnorefilePath := ignorefilePath\<rparr>
                        in case err4 of
                             Some err \<Rightarrow> ((None, Some err), ev3 @ ev4)
                           | None \<Rightarrow>
                               (case determineImage_BuildImage w ctx appConfig resolver opts of
                                  (r, ev5) \<Rightarrow> (r, ev3 @ ev4 @ ev5))))))"

text \<open>
  The first part (lines 344-376). The options start as the literal of lines 350-360, the
  other fields at their zero values. \<open>build.Args\<close> is the map of the configuration when the
  configuration has a build section, so what \<open>mergeBuildArgs\<close> stored in it is written
  back. A nil map of build secrets and an empty one are the same map here, so line 367
  needs no case.
\<close>

definition determineImage_build ::
  "World \<Rightarrow> Context \<Rightarrow> Config \<Rightarrow> Resolver \<Rightarrow>
     (DeploymentImage option \<times> error option) \<times> Config \<times> event list" where
  "determineImage_build w ctx appConfig resolver =
     (let build = (case Build appConfig of None \<Rightarrow> new_Build | Some b \<Rightarrow> b);
          opts = \<lparr>io_AppName = AppName appConfig,
                  io_WorkingDir = WorkingDirectory ctx,
                  io_Publish = (flag_push ctx \<or> \<not> flag_build_only ctx),
                  io_ImageLabel = flag_image_label ctx,
                  io_NoCache = flag_no_cache ctx,
                  io_BuiltIn = Builtin build,
                  io_BuiltInSettings = Settings build,
                  io_Builder = Builder build,
                  io_Buildpacks = Buildpacks build,
                  io_BuildSecrets = Map.empty,
                  io_BuildArgs = Map.empty,
                  io_DockerfilePath = [],
                  io_IgnorefilePath = [],
                  io_Target = []\<rparr>;
          ev1 = [(Call_ParseKVStringsToMap (flag_build_secret ctx),
                  error_of (ParseKVStringsToMap (flag_build_secret ctx)))]
      in case ParseKVStringsToMap (flag_build_secret ctx) of
           Inl err \<Rightarrow> ((None, Some err), appConfig, ev1)
         | Inr cliBuildSecrets \<Rightarrow>
             (let opts = opts\<lparr>io_BuildSecrets := cliBuildSecrets\<rparr>
              in case mergeBuildArgs ctx (Args build) of
                   (merged, args', ev2) \<Rightarrow>
                     (let appConfig =
                            (case Build appConfig of
                               None \<Rightarrow> appConfig
                             | Some b \<Rightarrow> appConfig\<lparr>Build := Some (b\<lparr>Args := args'\<rparr>)\<rparr>)
                      in case merged of
                           Inl err \<Rightarrow> ((None, Some err), appConfig, ev1 @ ev2)
                         | Inr buildArgs \<Rightarrow>
                             (let opts = opts\<lparr>io_BuildArgs := buildArgs\<rparr>
                              in case determineImage_paths w ctx appConfig resolver opts of
                                   (r, ev3) \<Rightarrow> (r, appConfig, ev1 @ ev2 @ ev3)))))"

text \<open>
  \<open>determineImage\<close> (deploy.go, lines 307-405), its first lines. The resolver is made
  from the daemon type of line 309 and the application name (line 322). Lines 314-320
  compare the Dockerfile found in the working directory with the configured one and
  warn; the error of \<open>resolveDockerfilePath\<close> is bound to the blank identifier there, so
  only the path is used.
\<close>

definition determineImage_resolver :: "World \<Rightarrow> Context \<Rightarrow> Config \<Rightarrow> Resolver" where
  "determineImage_resolver w ctx appConfig =
     \<lparr>allowLocal = \<not> flag_remote_only ctx,
      allowRemote = \<not> flag_local_only ctx,
      inCI = IsCI w,
      useNixpacks = flag_nixpacks ctx,
      resolver_AppName = AppName appConfig\<rparr>"

definition determineImage_advisory :: "World \<Rightarrow> Context \<Rightarrow> Config \<Rightarrow> event list" where
  "determineImage_advisory w ctx appConfig =
     (if length (BuildStrategies appConfig) > 0
      then (let foundDF = ResolveDockerfile w (WorkingDirectory ctx)
            in case resolveDockerfilePath w ctx appConfig of
                 ((configDF, _), evs) \<Rightarrow>
                   map (\<lambda>(c, e). (Call_advisory c, e)) evs @
                         (if foundDF \<noteq> [] \<and> foundDF \<noteq> configDF
                          then [(Call_Warnf (''Ignoring '' @ foundDF @ '' due to config'' @ [CHR 0x0A]),
                                 None)]
                          else []))
      else [])"

text \<open>
  \<open>determineImage\<close> as a whole: the advisory comparison, the image reference, and then
  either \<open>ResolveReference\<close>, whose pair is returned as it is (lines 330-342), or the
  build from source.
\<close>

definition determineImage ::
  "World \<Rightarrow> Context \<Rightarrow> Config \<Rightarrow>
     (DeploymentImage option \<times> error option) \<times> Config \<times> event list" where
  "determineImage w ctx appConfig =
     (let ev0 = determineImage_advisory w ctx appConfig;
          resolver = determineImage_resolver w ctx appConfig
      in case fetchImageRef ctx (Some appConfig) of
           Inl err \<Rightarrow> ((None, Some err), appConfig, ev0)
         | Inr imageRef \<Rightarrow>
             if imageRef \<noteq> []
             then (let opts = \<lparr>ro_AppName = AppName appConfig,
                                ro_WorkingDir = WorkingDirectory ctx,
                                ro_Publish = (\<not> flag_build_only ctx),
                                ro_ImageRef = imageRef,
                                ro_ImageLabel = flag_image_label ctx\<rparr>
                   in case ResolveReference w resolver opts of
                        (img, err) \<Rightarrow>
                          ((img, err), appConfig, ev0 @ [(Call_ResolveReference opts, err)]))
             else (case determineImage_build w ctx appConfig resolver of
                     (r, appConfig', evs) \<Rightarrow> (r, appConfig', ev0 @ evs)))"

section \<open>The legacy backend and the pipeline\<close>

text \<open>
  \<open>createRelease\<close> (deploy.go, lines 474-498). \<open>img.Tag\<close> is read first: a nil image is a
  nil pointer dereference, before any call. The result of \<open>DeployImage\<close> is returned as
  it is.
\<close>

definition createRelease ::
  "World \<Rightarrow> Context \<Rightarrow> Config \<Rightarrow> DeploymentImage option \<Rightarrow>
     (error + Release \<times> ReleaseCommand option) go \<times> event list" where
  "createRelease w ctx appConfig img =
     (case img of
        None \<Rightarrow> (Panic, [])
      | Some i \<Rightarrow>
          (let input = \<lparr>di_AppID = AppName appConfig, di_Image = Tag i,
                         di_Strategy = None, di_Definition = Map.empty\<rparr>;
               input = (if flag_strategy ctx \<noteq> []
                        then input\<lparr>di_Strategy :=
                               Some (ReplaceAll (ToUpper w (flag_strategy ctx)) (CHR ''-'') (CHR ''_''))\<rparr>
                        else input);
               input = input\<lparr>di_Definition := SanitizedDefinition appConfig\<rparr>
           in (Return (DeployImage w input),
               [(Call_DeployImage input, error_of (DeployImage w input))])))"

text \<open>
  \<open>DeployWithConfig\<close>, the dispatch to the machines backend (deploy.go, lines 165-191).
\<close>

definition DeployWithConfig_machines ::
  "World \<Rightarrow> Context \<Rightarrow> Config \<Rightarrow> AppCompact \<Rightarrow> DeploymentImage option \<Rightarrow>
     error option go \<times> event list" where
  "DeployWithConfig_machines w ctx appConfig appCompact img =
     (let primaryRegion = PrimaryRegion appConfig;
          primaryRegion = (if flag_region ctx \<noteq> [] then flag_region ctx else primaryRegion);
          mdArgs = \<lparr>md_AppCompact = appCompact,
                    md_DeploymentImage = img,
                    md_Strategy = flag_strategy ctx,
                    md_EnvFromFlags = flag_env ctx,
                    md_PrimaryRegionFlag = primaryRegion,
                    md_BuildOnly = flag_build_only ctx,
                    md_SkipHealthChecks = flag_detach ctx,
                    md_WaitTimeout = flag_wait_timeout ctx * 1000000000,
                    md_LeaseTimeout = flag_lease_timeout ctx * 1000000000\<rparr>
      in case NewMachineDeployment w mdArgs of
           Inl err \<Rightarrow>
             (Return (Some err),
              [(Call_NewMachineDeployment mdArgs, Some err), (Call_CaptureException err, None)])
         | Inr md \<Rightarrow>
             (let err = DeployMachinesApp w md
              in (Return err,
                  [(Call_NewMachineDeployment mdArgs, None), (Call_DeployMachinesApp md, err)] @
                  (case err of None \<Rightarrow> [] | Some e \<Rightarrow> [(Call_CaptureException e, None)]))))"

text \<open>
  \<open>DeployWithConfig\<close>, the end of the release flow (deploy.go, lines 222-231).
\<close>

definition DeployWithConfig_watch ::
  "World \<Rightarrow> Config \<Rightarrow> Release \<Rightarrow> error option go \<times> event list" where
  "DeployWithConfig_watch w appConfig release =
     (if rel_DeploymentStrategy release = ''IMMEDIATE'' then (Return None, [])
      else (let err = watch_Deployment w (AppName appConfig) (rel_EvaluationID release)
            in (Return err,
                [(Call_watch_Deployment (AppName appConfig) (rel_EvaluationID release), err)])))"

text \<open>
  \<open>DeployWithConfig\<close>, the release flow of the legacy backend (deploy.go, lines 193-231).
\<close>

definition DeployWithConfig_release ::
  "World \<Rightarrow> Context \<Rightarrow> Config \<Rightarrow> DeploymentImage option \<Rightarrow> error option go \<times> event list" where
  "DeployWithConfig_release w ctx appConfig img =
     (case createRelease w ctx appConfig img of
        (Panic, ev1) \<Rightarrow> (Panic, ev1)
      | (Return (Inl err), ev1) \<Rightarrow> (Return (Some err), ev1)
      | (Return (Inr (release, releaseCommand)), ev1) \<Rightarrow>
          if flag_detach ctx then (Return None, ev1)
          else (case releaseCommand of
                  None \<Rightarrow>
                    (case DeployWithConfig_watch w appConfig release of
                       (r, ev4) \<Rightarrow> (r, ev1 @ ev4))
                | Some rc \<Rightarrow>
                    (let ev2 = [(Call_watch_ReleaseCommand (AppName appConfig) (rc_ID rc),
                                 watch_ReleaseCommand w (AppName appConfig) (rc_ID rc))]
                     in case watch_ReleaseCommand w (AppName appConfig) (rc_ID rc) of
                          Some err \<Rightarrow> (Return (Some err), ev1 @ ev2)
                        | None \<Rightarrow>
                            (let ev3 = [(Call_GetAppReleaseNomad (AppName appConfig) (rel_ID release),
                                         error_of (GetAppReleaseNomad w (AppName appConfig) (rel_ID release)))]
                             in case GetAppReleaseNomad w (AppName appConfig) (rel_ID release) of
                                  Inl err \<Rightarrow> (Return (Some err), ev1 @ ev2 @ ev3)
                                | Inr release' \<Rightarrow>
                                    (case DeployWithConfig_watch w appConfig release' of
                                       (r, ev4) \<Rightarrow> (r, ev1 @ ev2 @ ev3 @ ev4))))))"

text \<open>
  \<open>DeployWithConfig\<close> (deploy.go, lines 128-232). The result is the returned error (or a
  panic), the configuration as the invocation leaves it, and the calls made.
\<close>

definition DeployWithConfig ::
  "World \<Rightarrow> Context \<Rightarrow> Config \<Rightarrow> DeployWithConfigArgs \<Rightarrow>
     error option go \<times> Config \<times> event list" where
  "DeployWithConfig w ctx appConfig args =
     (let appNameFromContext = NameFromContext ctx;
          ev1 = [(Call_GetAppCompact appNameFromContext,
                  error_of (GetAppCompact w appNameFromContext))]
      in case GetAppCompact w appNameFromContext of
           Inl err \<Rightarrow> (Return (Some err), appConfig, ev1)
         | Inr appCompact \<Rightarrow>
             (case useMachines w appConfig appCompact args of
                (Inl err, ev2) \<Rightarrow> (Return (Some err), appConfig, ev1 @ ev2)
              | (Inr deployToMachines, ev2) \<Rightarrow>
                  (case (if deployToMachines
                         then (case EnsureV2Config w appConfig of
                                 (err, c) \<Rightarrow> (err, c, [(Call_EnsureV2Config, err)]))
                         else (None, appConfig, [])) of
                     (Some err, appConfig, ev3) \<Rightarrow>
                       (Return (Some (ErrNew (''Can't deploy an invalid app config: '' @ Error_msg err))),
                        appConfig, ev1 @ ev2 @ ev3)
                   | (None, appConfig, ev3) \<Rightarrow>
                       (case determineImage w ctx appConfig of
                          ((img, Some err), appConfig, ev4) \<Rightarrow>
                            (Return (Some (ErrWrap ''failed to fetch an image or build from source: '' err)),
                             appConfig, ev1 @ ev2 @ ev3 @ ev4)
                        | ((img, None), appConfig, ev4) \<Rightarrow>
                            if flag_build_only ctx
                            then (Return None, appConfig, ev1 @ ev2 @ ev3 @ ev4)
                            else (let appConfig =
                                        (if PrimaryRegion appConfig \<noteq> [] \<and>
                                            map_index (Env appConfig) ''PRIMARY_REGION'' = []
                                         then SetEnvVariable appConfig ''PRIMARY_REGION''
                                                (PrimaryRegion appConfig)
                                         else appConfig)
                                  in if deployToMachines
                                     then (case DeployWithConfig_machines w ctx appConfig appCompact img of
                                             (r, ev5) \<Rightarrow> (r, appConfig, ev1 @ ev2 @ ev3 @ ev4 @ ev5))
                                     else (case DeployWithConfig_release w ctx appConfig img of
                                             (r, ev5) \<Rightarrow> (r, appConfig, ev1 @ ev2 @ ev3 @ ev4 @ ev5)))))))"

section \<open>Observations on the recorded calls\<close>

text \<open>
  The options with which an invocation called \<open>ResolveReference\<close> and \<open>BuildImage\<close>, in
  the order of the calls.
\<close>

fun resolve_opts :: "event list \<Rightarrow> RefOptions list" where
  "resolve_opts [] = []"
| "resolve_opts ((Call_ResolveReference opts, _) # evs) = opts # resolve_opts evs"
| "resolve_opts (_ # evs) = resolve_opts evs"

fun build_opts :: "event list \<Rightarrow> ImageOptions list" where
  "build_opts [] = []"
| "build_opts ((Call_BuildImage opts, _) # evs) = opts # build_opts evs"
| "build_opts (_ # evs) = build_opts evs"

text \<open>
  The calls that start a rollout: \<open>DeployImage\<close>, which \<open>createRelease\<close> makes, and the two
  calls of the machines backend.
\<close>

fun backend_call :: "call \<Rightarrow> bool" where
  "backend_call (Call_DeployImage _) = True"
| "backend_call (Call_NewMachineDeployment _) = True"
| "backend_call (Call_DeployMachinesApp _) = True"
| "backend_call _ = False"

text \<open>
  The two calls whose error the source binds to the blank identifier, on every path: the
  lookup of the organization's default in \<open>useMachines\<close> (deploy.go line 235), which has
  no other call site, and what the advisory \<open>resolveDockerfilePath\<close> of \<open>determineImage\<close>
  calls (line 316).
\<close>

fun is_lookup :: "call \<Rightarrow> bool" where
  "is_lookup (Call_GetAppsV2DefaultOnForOrg _) = True"
| "is_lookup _ = False"

fun is_advisory :: "call \<Rightarrow> bool" where
  "is_advisory (Call_advisory _) = True"
| "is_advisory _ = False"

definition discarded :: "call \<Rightarrow> bool" where
  "discarded c = (is_lookup c \<or> is_advisory c)"






text \<open>
  A record of calls stops at its first failure when every call that returned an error
  which was not discarded satisfies \<open>P\<close> (which says how the error is handed on) and
  is followed by cleanup calls only.
\<close>

definition quiet :: "event \<Rightarrow> bool" where
  "quiet ev = (snd ev = None \<or> discarded (fst ev))"



definition inject_primary_region :: "Config \<Rightarrow> Config" where
  "inject_primary_region c =
     (if PrimaryRegion c \<noteq> [] \<and> map_index (Env c) ''PRIMARY_REGION'' = []
      then SetEnvVariable c ''PRIMARY_REGION'' (PrimaryRegion c)
      else c)"


section \<open>Sample inputs\<close>

text \<open>
  A never-deployed application of organization \<open>acme\<close>; a configuration with a primary
  region, a declared Dockerfile and a build section that names an image and two build
  args; an invocation with a CLI Dockerfile path and one CLI build arg; and collaborators
  that all succeed, except that the lookup of the organization's default fails and the
  resolver answers a reference with no image and no error.
\<close>

definition sample_app :: AppCompact where
  "sample_app = \<lparr>Name = ''web'', Deployed = False, PlatformVersion = ''nomad'',
                   Organization = \<lparr>Slug = ''acme''\<rparr>\<rparr>"

definition sample_args :: DeployWithConfigArgs where
  "sample_args = \<lparr>ForceMachines = False, ForceNomad = False, ForceYes = False\<rparr>"

definition sample_build :: Build where
  "sample_build = \<lparr>Builder = [], Args = Some [''A'' \<mapsto> ''0'', ''B'' \<mapsto> ''2''],
                     Buildpacks = [], Image = ''registry/web:v1'', Settings = Map.empty,
                     Builtin = []\<rparr>"

definition sample_config :: Config where
  "sample_config = \<lparr>AppName = ''web'', PrimaryRegion = ''ams'', Env = Map.empty,
                      Build = Some sample_build, Dockerfile = ''Dockerfile.prod'',
                      Ignorefile = [], DockerBuildTarget = [],
                      ConfigFilePath = ''/app/fly.toml'', BuildStrategies = [],
                      SanitizedDefinition = Map.empty\<rparr>"

definition sample_ctx :: Context where
  "sample_ctx = \<lparr>NameFromContext = ''web'', WorkingDirectory = ''/app'',
                   flag_image = [], flag_image_label = [], flag_region = [],
                   flag_strategy = [], flag_env = [], flag_dockerfile = ''/other/Dockerfile'',
                   flag_ignorefile = [], flag_build_arg = [''A=1''], flag_build_secret = [],
                   flag_build_target = [], flag_build_only = False, flag_push = False,
                   flag_no_cache = False, flag_nixpacks = False, flag_remote_only = False,
                   flag_local_only = False, flag_detach = False, flag_wait_timeout = 120,
                   flag_lease_timeout = 13\<rparr>"

definition sample_image :: DeploymentImage where
  "sample_image = \<lparr>ID = ''img1'', Tag = ''registry/web:deployment-1'', Size = 1024\<rparr>"

definition sample_release :: Release where
  "sample_release = \<lparr>rel_ID = ''r1'', rel_Version = 1, rel_DeploymentStrategy = ''ROLLING'',
                       rel_EvaluationID = ''e1''\<rparr>"

definition sample_world :: World where
  "sample_world =
     \<lparr>GetAppCompact = (\<lambda>_. Inr sample_app),
      GetAppsV2DefaultOnForOrg = (\<lambda>_. (False, Some (ErrNew ''lookup failed''))),
      EnsureV2Config = (\<lambda>c. (None, c)),
      IsCI = False,
      ResolveDockerfile = (\<lambda>_. []),
      Getwd = Inr ''/app'',
      ResolveReference = (\<lambda>_ _. (None, None)),
      BuildImage = (\<lambda>_ _. (Some sample_image, None)),
      NewMachineDeployment = (\<lambda>_. Inr 0),
      DeployMachinesApp = (\<lambda>_. None),
      ToUpper = (\<lambda>s. s),
      DeployImage = (\<lambda>_. Inr (sample_release, None)),
      watch_ReleaseCommand = (\<lambda>_ _. None),
      GetAppReleaseNomad = (\<lambda>_ _. Inr sample_release),
      watch_Deployment = (\<lambda>_ _. None)\<rparr>"

text \<open>The same configuration without an image in its build section: built from source.\<close>

definition sample_source_config :: Config where
  "sample_source_config = sample_config\<lparr>Build := Some (sample_build\<lparr>Image := []\<rparr>)\<rparr>"

section \<open>Facts about the helpers\<close>

lemma filepath_Clean_nonempty: "filepath_Clean path \<noteq> []"
  by (simp add: filepath_Clean_def Let_def)

lemma filepath_Dir_nonempty: "filepath_Dir path \<noteq> []"
  by (simp add: filepath_Dir_def filepath_Clean_nonempty)

lemma filepath_Join_Dir_nonempty: "filepath_Join [filepath_Dir d, path] \<noteq> []"
  by (simp add: filepath_Dir_nonempty filepath_Clean_nonempty)

lemma ParseKVStringsToMap_into_malformed:
  "arg \<in> set args \<Longrightarrow> parseKV arg = None \<Longrightarrow> \<exists>e. ParseKVStringsToMap_into out args = Inl e"
proof (induction args arbitrary: out)
  case Nil
  then show ?case by simp
next
  case (Cons a args)
  show ?case
  proof (cases "parseKV a")
    case None
    then show ?thesis by simp
  next
    case (Some kv)
    with Cons.prems have "arg \<in> set args" by auto
    from Cons.IH [OF this Cons.prems(2)] Some show ?thesis
      by (cases kv) simp
  qed
qed

lemma sample_cli_parse: "ParseKVStringsToMap [''A=1''] = Inr [''A'' \<mapsto> ''1'']"
  by (simp add: ParseKVStringsToMap_def parseKV_def)

lemma resolve_opts_append [simp]: "resolve_opts (xs @ ys) = resolve_opts xs @ resolve_opts ys"
  by (induction xs rule: resolve_opts.induct) simp_all

lemma build_opts_append [simp]: "build_opts (xs @ ys) = build_opts xs @ build_opts ys"
  by (induction xs rule: build_opts.induct) simp_all

section \<open>The backend selected\<close>

lemma useMachines_pair:
  "useMachines w appConfig appCompact args =
     (Inr (selectBackend_table (\<not> Deployed appCompact) (ForceNomad args) (ForceMachines args)
            (PlatformVersion appCompact)
            (fst (GetAppsV2DefaultOnForOrg w (Slug (Organization appCompact))))),
      [(Call_GetAppsV2DefaultOnForOrg (Slug (Organization appCompact)),
        snd (GetAppsV2DefaultOnForOrg w (Slug (Organization appCompact))))])"
  by (simp add: useMachines_def selectBackend_table_def Let_def)

text \<open>
  C1. For every never-deployed flag, force-legacy flag, force-modern flag, recorded platform
  marker and answer of the organization lookup, \<open>useMachines\<close> returns a nil error and
  the backend that the table of section 4.3 gives, read top to bottom with the first match
  winning. Row by row: never deployed and force-legacy gives legacy; never deployed and
  force-modern (force-legacy off) gives modern; never deployed with the marker
  \<open>machines\<close> (force-legacy off) gives modern; a deployed application gives exactly
  (marker = \<open>machines\<close>) whatever the two force flags are; otherwise the organization's
  default-on setting is returned.
\<close>

theorem useMachines_priority_table:
  "fst (useMachines w appConfig appCompact args) =
     Inr (selectBackend_table (\<not> Deployed appCompact) (ForceNomad args) (ForceMachines args)
            (PlatformVersion appCompact)
            (fst (GetAppsV2DefaultOnForOrg w (Slug (Organization appCompact)))))
   \<and> fst (useMachines w appConfig (appCompact\<lparr>Deployed := False\<rparr>) (args\<lparr>ForceNomad := True\<rparr>)) =
       Inr False
   \<and> fst (useMachines w appConfig (appCompact\<lparr>Deployed := False\<rparr>)
            (args\<lparr>ForceNomad := False, ForceMachines := True\<rparr>)) = Inr True
   \<and> fst (useMachines w appConfig
            (appCompact\<lparr>Deployed := False, PlatformVersion := MachinesPlatform\<rparr>)
            (args\<lparr>ForceNomad := False\<rparr>)) = Inr True
   \<and> fst (useMachines w appConfig (appCompact\<lparr>Deployed := True\<rparr>) args) =
       Inr (PlatformVersion appCompact = MachinesPlatform)
   \<and> fst (useMachines w appConfig (appCompact\<lparr>Deployed := False\<rparr>)
            (args\<lparr>ForceNomad := False, ForceMachines := False\<rparr>)) =
       Inr (PlatformVersion appCompact = MachinesPlatform \<or>
            fst (GetAppsV2DefaultOnForOrg w (Slug (Organization appCompact))))"
  by (simp add: useMachines_def selectBackend_table_def Let_def)

theorem useMachines_priority_table_witness:
  "fst (useMachines sample_world sample_config sample_app sample_args) = Inr False
   \<and> fst (useMachines sample_world sample_config (sample_app\<lparr>Deployed := True\<rparr>)
            (sample_args\<lparr>ForceNomad := True, ForceMachines := True\<rparr>)) =
       Inr (''nomad'' = MachinesPlatform)
   \<and> fst (useMachines sample_world sample_config sample_app
            (sample_args\<lparr>ForceNomad := False, ForceMachines := True\<rparr>)) = Inr True"
  using useMachines_priority_table [of sample_world sample_config sample_app sample_args]
    useMachines_priority_table [of sample_world sample_config sample_app
      "sample_args\<lparr>ForceNomad := True, ForceMachines := True\<rparr>"]
  by (simp add: selectBackend_table_def sample_app_def sample_args_def sample_world_def
      MachinesPlatform_def)

text \<open>
  C9. With the application, the two force flags and the collaborators fixed,
  \<open>useMachines\<close> gives the same result, and makes the same call, whether \<open>ForceYes\<close> is
  true or false.
\<close>

theorem useMachines_ForceYes_inert:
  "useMachines w appConfig appCompact (args\<lparr>ForceYes := True\<rparr>) =
   useMachines w appConfig appCompact (args\<lparr>ForceYes := False\<rparr>)
   \<and> useMachines w appConfig appCompact (args\<lparr>ForceYes := y\<rparr>) =
     useMachines w appConfig appCompact args"
  by (simp add: useMachines_def Let_def)

theorem useMachines_ForceYes_inert_witness:
  "useMachines sample_world sample_config sample_app (sample_args\<lparr>ForceYes := True\<rparr>) =
   useMachines sample_world sample_config sample_app sample_args
   \<and> fst (useMachines sample_world sample_config sample_app (sample_args\<lparr>ForceYes := True\<rparr>)) =
     Inr False"
  using useMachines_ForceYes_inert [of sample_world sample_config sample_app sample_args True]
  by (simp add: useMachines_def sample_app_def sample_args_def sample_world_def
      MachinesPlatform_def)

section \<open>Image reference, build arguments, Dockerfile path\<close>

text \<open>
  C5. \<open>fetchImageRef\<close> returns, with a nil error, the image flag when it is not empty;
  otherwise the image of the configuration's build section when there is one and it is not
  empty; otherwise the empty reference. In particular a non-empty flag wins over a
  different, non-empty image of the build section.
\<close>

theorem fetchImageRef_priority:
  "fetchImageRef ctx cfg =
     Inr (if flag_image ctx \<noteq> [] then flag_image ctx
          else (case cfg of
                  None \<Rightarrow> []
                | Some c \<Rightarrow> (case Build c of None \<Rightarrow> [] | Some b \<Rightarrow> Image b)))
   \<and> (flag_image ctx \<noteq> [] \<and> Build c = Some b \<and> Image b \<noteq> [] \<and> Image b \<noteq> flag_image ctx
        \<longrightarrow> fetchImageRef ctx (Some c) = Inr (flag_image ctx))"
  by (simp add: fetchImageRef_def Let_def split: option.splits)

theorem fetchImageRef_priority_witness:
  "flag_image (sample_ctx\<lparr>flag_image := ''nginx:1.25''\<rparr>) \<noteq> []
   \<and> Build sample_config = Some sample_build
   \<and> Image sample_build \<noteq> []
   \<and> Image sample_build \<noteq> flag_image (sample_ctx\<lparr>flag_image := ''nginx:1.25''\<rparr>)
   \<and> fetchImageRef (sample_ctx\<lparr>flag_image := ''nginx:1.25''\<rparr>) (Some sample_config) =
       Inr ''nginx:1.25''
   \<and> fetchImageRef sample_ctx (Some sample_config) = Inr ''registry/web:v1''
   \<and> fetchImageRef sample_ctx (Some (sample_config\<lparr>Build := None\<rparr>)) = Inr []"
  using fetchImageRef_priority [of "sample_ctx\<lparr>flag_image := ''nginx:1.25''\<rparr>"
      "Some sample_config" sample_config sample_build]
    fetchImageRef_priority [of sample_ctx "Some sample_config" sample_config sample_build]
    fetchImageRef_priority [of sample_ctx "Some (sample_config\<lparr>Build := None\<rparr>)"
      sample_config sample_build]
  by (simp add: sample_ctx_def sample_config_def sample_build_def)

text \<open>
  C6. When the CLI build-arg entries parse to a map \<open>cli\<close>, \<open>mergeBuildArgs\<close> returns a
  map in which every key of \<open>cli\<close> has its CLI value and every other key has the value of
  the configuration's build args, if any. When some CLI entry is malformed,
  \<open>mergeBuildArgs\<close> returns the error \<open>invalid build args: ...\<close>, no map, and leaves the
  configuration's map as it was.
\<close>

theorem mergeBuildArgs_cli_wins:
  "(ParseKVStringsToMap (flag_build_arg ctx) = Inr cli \<longrightarrow>
      (\<exists>merged. fst (mergeBuildArgs ctx args) = Inr merged \<and>
         (\<forall>k. merged k =
            (case cli k of
               Some v \<Rightarrow> Some v
             | None \<Rightarrow> (case args of None \<Rightarrow> None | Some m \<Rightarrow> m k)))))
   \<and> (arg \<in> set (flag_build_arg ctx') \<and> parseKV arg = None \<longrightarrow>
        (\<exists>e. mergeBuildArgs ctx' args' =
               (Inl (ErrWrap ''invalid build args: '' e), args',
                [(Call_ParseKVStringsToMap (flag_build_arg ctx'), Some e)])))"
proof (intro conjI impI)
  assume "ParseKVStringsToMap (flag_build_arg ctx) = Inr cli"
  then show "\<exists>merged. fst (mergeBuildArgs ctx args) = Inr merged \<and>
         (\<forall>k. merged k =
            (case cli k of
               Some v \<Rightarrow> Some v
             | None \<Rightarrow> (case args of None \<Rightarrow> None | Some m \<Rightarrow> m k)))"
    by (simp add: mergeBuildArgs_def Let_def map_add_def split: option.splits)
next
  assume "arg \<in> set (flag_build_arg ctx') \<and> parseKV arg = None"
  then obtain e where "ParseKVStringsToMap (flag_build_arg ctx') = Inl e"
    unfolding ParseKVStringsToMap_def using ParseKVStringsToMap_into_malformed by blast
  then show "\<exists>e. mergeBuildArgs ctx' args' =
               (Inl (ErrWrap ''invalid build args: '' e), args',
                [(Call_ParseKVStringsToMap (flag_build_arg ctx'), Some e)])"
    by (simp add: mergeBuildArgs_def Let_def error_of_def)
qed

theorem mergeBuildArgs_cli_wins_witness:
  "ParseKVStringsToMap (flag_build_arg sample_ctx) = Inr [''A'' \<mapsto> ''1'']
   \<and> ''B'' \<in> set (flag_build_arg (sample_ctx\<lparr>flag_build_arg := [''A=1'', ''B'']\<rparr>))
   \<and> parseKV ''B'' = None
   \<and> fst (mergeBuildArgs sample_ctx (Some [''A'' \<mapsto> ''0'', ''B'' \<mapsto> ''2''])) =
        Inr [''A'' \<mapsto> ''1'', ''B'' \<mapsto> ''2'']
   \<and> (\<exists>e. fst (mergeBuildArgs (sample_ctx\<lparr>flag_build_arg := [''A=1'', ''B'']\<rparr>)
                 (Some [''A'' \<mapsto> ''0'', ''B'' \<mapsto> ''2''])) =
            Inl (ErrWrap ''invalid build args: '' e))"
proof -
  have p: "ParseKVStringsToMap (flag_build_arg sample_ctx) = Inr [''A'' \<mapsto> ''1'']"
    by (simp add: sample_ctx_def sample_cli_parse)
  have m: "''B'' \<in> set (flag_build_arg (sample_ctx\<lparr>flag_build_arg := [''A=1'', ''B'']\<rparr>))
           \<and> parseKV ''B'' = None"
    by (simp add: parseKV_def)
  from mergeBuildArgs_cli_wins [of sample_ctx "[''A'' \<mapsto> ''1'']"
      "Some [''A'' \<mapsto> ''0'', ''B'' \<mapsto> ''2'']" "''B''"
      "sample_ctx\<lparr>flag_build_arg := [''A=1'', ''B'']\<rparr>"
      "Some [''A'' \<mapsto> ''0'', ''B'' \<mapsto> ''2'']"] p m
  obtain merged e where
    r: "fst (mergeBuildArgs sample_ctx (Some [''A'' \<mapsto> ''0'', ''B'' \<mapsto> ''2''])) = Inr merged"
    and k: "\<forall>k. merged k = (case [''A'' \<mapsto> ''1''] k of Some v \<Rightarrow> Some v
                 | None \<Rightarrow> [''A'' \<mapsto> ''0'', ''B'' \<mapsto> ''2''] k)"
    and f: "mergeBuildArgs (sample_ctx\<lparr>flag_build_arg := [''A=1'', ''B'']\<rparr>)
                 (Some [''A'' \<mapsto> ''0'', ''B'' \<mapsto> ''2'']) =
            (Inl (ErrWrap ''invalid build args: '' e), Some [''A'' \<mapsto> ''0'', ''B'' \<mapsto> ''2''],
             [(Call_ParseKVStringsToMap
                 (flag_build_arg (sample_ctx\<lparr>flag_build_arg := [''A=1'', ''B'']\<rparr>)), Some e)])"
    by auto
  have "merged = [''A'' \<mapsto> ''1'', ''B'' \<mapsto> ''2'']"
    by (rule ext) (simp add: k)
  with r p m f show ?thesis by auto
qed

text \<open>
  C7. When the configuration declares a Dockerfile path, \<open>resolveDockerfilePath\<close> returns
  what \<open>filepath.Abs\<close> gives for that path joined to the directory of the configuration
  file, and the CLI path plays no part; when the configuration declares none, it returns
  what \<open>filepath.Abs\<close> gives for the CLI path, or the empty path when that is empty too.
  With the declared path \<open>Dockerfile.prod\<close>, the configuration file \<open>/app/fly.toml\<close> and the
  CLI path \<open>/other/Dockerfile\<close> the result is \<open>/app/Dockerfile.prod\<close>.
\<close>

theorem resolveDockerfilePath_priority:
  "fst (resolveDockerfilePath w ctx appConfig) =
     (if Dockerfile appConfig \<noteq> []
      then filepath_Abs (Getwd w)
             (filepath_Join [filepath_Dir (ConfigFilePath appConfig), Dockerfile appConfig])
      else if flag_dockerfile ctx \<noteq> [] then filepath_Abs (Getwd w) (flag_dockerfile ctx)
      else ([], None))
   \<and> fst (resolveDockerfilePath w (ctx\<lparr>flag_dockerfile := ''/other/Dockerfile''\<rparr>)
            (appConfig\<lparr>Dockerfile := ''Dockerfile.prod'', ConfigFilePath := ''/app/fly.toml''\<rparr>)) =
       (''/app/Dockerfile.prod'', None)"
proof -
  have ex: "filepath_Abs g (filepath_Join [filepath_Dir ''/app/fly.toml'', ''Dockerfile.prod'']) =
      (''/app/Dockerfile.prod'', None)" for g
    by (simp add: filepath_Abs_def filepath_Dir_def filepath_Clean_def filepath_IsAbs_def Let_def)
  show ?thesis
    by (simp add: resolveDockerfilePath_def Let_def filepath_Join_Dir_nonempty ex
        del: filepath_Join.simps)
qed

theorem resolveDockerfilePath_priority_witness:
  "fst (resolveDockerfilePath sample_world sample_ctx sample_config) =
     (''/app/Dockerfile.prod'', None)
   \<and> fst (resolveDockerfilePath sample_world sample_ctx (sample_config\<lparr>Dockerfile := []\<rparr>)) =
       (''/other/Dockerfile'', None)
   \<and> fst (resolveDockerfilePath sample_world
            (sample_ctx\<lparr>flag_dockerfile := ''docker/Dockerfile''\<rparr>)
            (sample_config\<lparr>Dockerfile := []\<rparr>)) = (''/app/docker/Dockerfile'', None)"
  using resolveDockerfilePath_priority [of sample_world sample_ctx sample_config]
    resolveDockerfilePath_priority [of sample_world sample_ctx "sample_config\<lparr>Dockerfile := []\<rparr>"]
    resolveDockerfilePath_priority [of sample_world
      "sample_ctx\<lparr>flag_dockerfile := ''docker/Dockerfile''\<rparr>" "sample_config\<lparr>Dockerfile := []\<rparr>"]
  by (simp add: sample_ctx_def sample_config_def sample_world_def filepath_Abs_def
      filepath_Dir_def filepath_Clean_def filepath_IsAbs_def Let_def)

section \<open>Facts about the parts of the image determination\<close>

lemma fetchImageRef_value:
  "fetchImageRef ctx cfg =
     Inr (if flag_image ctx \<noteq> [] then flag_image ctx
          else (case cfg of
                  None \<Rightarrow> []
                | Some c \<Rightarrow> (case Build c of None \<Rightarrow> [] | Some b \<Rightarrow> Image b)))"
  by (simp add: fetchImageRef_def Let_def split: option.splits)

lemma mergeBuildArgs_fst:
  "fst (mergeBuildArgs ctx a) =
     (case ParseKVStringsToMap (flag_build_arg ctx) of
        Inl err \<Rightarrow> Inl (ErrWrap ''invalid build args: '' err)
      | Inr cli \<Rightarrow> Inr ((case a of None \<Rightarrow> Map.empty | Some m \<Rightarrow> m) ++ cli))"
  by (simp add: mergeBuildArgs_def Let_def split: sum.splits)


lemma mergeBuildArgs_events:
  "snd (snd (mergeBuildArgs ctx a)) =
     [(Call_ParseKVStringsToMap (flag_build_arg ctx),
       error_of (ParseKVStringsToMap (flag_build_arg ctx)))]"
  by (simp add: mergeBuildArgs_def Let_def split: sum.splits)

lemma resolveDockerfilePath_Build [simp]:
  "resolveDockerfilePath w ctx (c\<lparr>Build := b\<rparr>) = resolveDockerfilePath w ctx c"
  by (simp add: resolveDockerfilePath_def Let_def del: filepath_Join.simps)

lemma resolveIgnorefilePath_Build [simp]:
  "resolveIgnorefilePath w ctx (c\<lparr>Build := b\<rparr>) = resolveIgnorefilePath w ctx c"
  by (simp add: resolveIgnorefilePath_def Let_def del: filepath_Join.simps)

lemma resolveDockerfilePath_event:
  "ev \<in> set (snd (resolveDockerfilePath w ctx c)) \<Longrightarrow>
     (\<exists>p. fst ev = Call_Abs p) \<and> snd ev = snd (fst (resolveDockerfilePath w ctx c))"
  by (simp add: resolveDockerfilePath_def Let_def split: if_splits del: filepath_Join.simps)

lemma resolveIgnorefilePath_event:
  "ev \<in> set (snd (resolveIgnorefilePath w ctx c)) \<Longrightarrow>
     (\<exists>p. fst ev = Call_Abs p) \<and> snd ev = snd (fst (resolveIgnorefilePath w ctx c))"
  by (simp add: resolveIgnorefilePath_def Let_def split: if_splits del: filepath_Join.simps)

lemma resolveDockerfilePath_opts [simp]:
  "resolve_opts (snd (resolveDockerfilePath w ctx c)) = []"
  "build_opts (snd (resolveDockerfilePath w ctx c)) = []"
  by (simp_all add: resolveDockerfilePath_def Let_def del: filepath_Join.simps)

lemma resolveIgnorefilePath_opts [simp]:
  "resolve_opts (snd (resolveIgnorefilePath w ctx c)) = []"
  "build_opts (snd (resolveIgnorefilePath w ctx c)) = []"
  by (simp_all add: resolveIgnorefilePath_def Let_def del: filepath_Join.simps)

text \<open>The call of \<open>BuildImage\<close> and what follows it.\<close>

lemma determineImage_BuildImage_result:
  "fst (determineImage_BuildImage w ctx c r opts) \<noteq> (None, None)"
  by (simp add: determineImage_BuildImage_def Let_def split_beta)

lemma determineImage_BuildImage_event:
  "ev \<in> set (snd (determineImage_BuildImage w ctx c r opts)) \<Longrightarrow>
     \<not> backend_call (fst ev) \<and> \<not> is_lookup (fst ev) \<and>
     (snd ev \<noteq> None \<longrightarrow> snd (fst (determineImage_BuildImage w ctx c r opts)) \<noteq> None)"
  by (auto simp: determineImage_BuildImage_def Let_def split_beta)

lemma determineImage_BuildImage_opts:
  "resolve_opts (snd (determineImage_BuildImage w ctx c r opts)) = []"
  "map io_Publish (build_opts (snd (determineImage_BuildImage w ctx c r opts))) = [io_Publish opts]"
  by (simp_all add: determineImage_BuildImage_def Let_def split_beta)

lemma determineImage_BuildImage_publish:
  "x \<in> set (build_opts (snd (determineImage_BuildImage w ctx c r opts))) \<Longrightarrow>
     io_Publish x = io_Publish opts"
  by (auto simp: determineImage_BuildImage_def Let_def split_beta)

text \<open>The two paths and then the build.\<close>

lemma determineImage_paths_result:
  "fst (determineImage_paths w ctx c r opts) \<noteq> (None, None)"
  by (simp add: determineImage_paths_def Let_def split_beta determineImage_BuildImage_result
      split: option.splits)

lemma determineImage_paths_event:
  assumes "ev \<in> set (snd (determineImage_paths w ctx c r opts))"
  shows "\<not> backend_call (fst ev) \<and> \<not> is_lookup (fst ev) \<and>
     (snd ev \<noteq> None \<longrightarrow> snd (fst (determineImage_paths w ctx c r opts)) \<noteq> None)"
  using assms
  by (auto simp: determineImage_paths_def Let_def split_beta
      split: option.splits
      dest!: resolveDockerfilePath_event resolveIgnorefilePath_event
        determineImage_BuildImage_event)

lemma determineImage_paths_resolve_opts:
  "resolve_opts (snd (determineImage_paths w ctx c r opts)) = []"
  by (simp add: determineImage_paths_def Let_def split_beta determineImage_BuildImage_opts
      split: option.splits)

lemma determineImage_paths_publish:
  "x \<in> set (build_opts (snd (determineImage_paths w ctx c r opts))) \<Longrightarrow>
     io_Publish x = io_Publish opts"
  by (auto simp: determineImage_paths_def Let_def split_beta
      split: option.splits dest!: determineImage_BuildImage_publish)

text \<open>The build from source as a whole.\<close>

lemma determineImage_build_result:
  "fst (determineImage_build w ctx c r) \<noteq> (None, None)"
  by (simp add: determineImage_build_def Let_def split_beta determineImage_paths_result
      split: sum.splits)

lemma determineImage_build_event:
  assumes "ev \<in> set (snd (snd (determineImage_build w ctx c r)))"
  shows "\<not> backend_call (fst ev) \<and> \<not> is_lookup (fst ev) \<and>
     (snd ev \<noteq> None \<longrightarrow> snd (fst (determineImage_build w ctx c r)) \<noteq> None)"
  using assms
  by (auto simp: determineImage_build_def Let_def split_beta mergeBuildArgs_fst
      mergeBuildArgs_events error_of_def
      split: sum.splits dest!: determineImage_paths_event)

lemma determineImage_build_resolve_opts:
  "resolve_opts (snd (snd (determineImage_build w ctx c r))) = []"
  by (simp add: determineImage_build_def Let_def split_beta mergeBuildArgs_events
      determineImage_paths_resolve_opts split: sum.splits)

lemma determineImage_build_publish:
  "x \<in> set (build_opts (snd (snd (determineImage_build w ctx c r)))) \<Longrightarrow>
     io_Publish x = (flag_push ctx \<or> \<not> flag_build_only ctx)"
  by (auto simp: determineImage_build_def Let_def split_beta mergeBuildArgs_events
      mergeBuildArgs_fst split: sum.splits dest!: determineImage_paths_publish)


text \<open>\<open>determineImage\<close> as a whole.\<close>

lemma determineImage_advisory_event:
  assumes "ev \<in> set (determineImage_advisory w ctx c)"
  shows "\<not> backend_call (fst ev) \<and> \<not> is_lookup (fst ev) \<and> quiet ev"
  using assms
  by (auto simp: determineImage_advisory_def Let_def split_beta quiet_def discarded_def
      split: if_splits)

lemma resolve_opts_advisory [simp]:
  "resolve_opts (map (\<lambda>(c, e). (Call_advisory c, e)) evs) = []"
  by (induction evs) auto

lemma build_opts_advisory [simp]:
  "build_opts (map (\<lambda>(c, e). (Call_advisory c, e)) evs) = []"
  by (induction evs) auto

lemma determineImage_advisory_opts [simp]:
  "resolve_opts (determineImage_advisory w ctx c) = []"
  "build_opts (determineImage_advisory w ctx c) = []"
  by (simp_all add: determineImage_advisory_def Let_def split_beta)

lemma determineImage_by_reference:
  assumes "fetchImageRef ctx (Some c) = Inr ref" "ref \<noteq> []"
  shows "\<exists>opts.
           ro_Publish opts = (\<not> flag_build_only ctx) \<and>
           determineImage w ctx c =
             (ResolveReference w (determineImage_resolver w ctx c) opts, c,
              determineImage_advisory w ctx c @
              [(Call_ResolveReference opts,
                snd (ResolveReference w (determineImage_resolver w ctx c) opts))])"
  using assms by (simp add: determineImage_def Let_def split_beta)

lemma determineImage_from_source:
  assumes "fetchImageRef ctx (Some c) = Inr []"
  shows "determineImage w ctx c =
           (fst (determineImage_build w ctx c (determineImage_resolver w ctx c)),
            fst (snd (determineImage_build w ctx c (determineImage_resolver w ctx c))),
            determineImage_advisory w ctx c @
            snd (snd (determineImage_build w ctx c (determineImage_resolver w ctx c))))"
  using assms by (simp add: determineImage_def Let_def split_beta)

lemma determineImage_event:
  assumes "ev \<in> set (snd (snd (determineImage w ctx c)))"
  shows "\<not> backend_call (fst ev) \<and> \<not> is_lookup (fst ev)"
proof -
  obtain ref where ref: "fetchImageRef ctx (Some c) = Inr ref"
    by (simp add: fetchImageRef_value)
  show ?thesis
  proof (cases "ref = []")
    case True
    note d = determineImage_from_source [OF ref [unfolded True], of w]
    from assms d consider "ev \<in> set (determineImage_advisory w ctx c)"
      | "ev \<in> set (snd (snd (determineImage_build w ctx c (determineImage_resolver w ctx c))))"
      by auto
    then show ?thesis
    proof cases
      case 1
      with determineImage_advisory_event [of ev w ctx c] show ?thesis by simp
    next
      case 2
      with determineImage_build_event [of ev w ctx c "determineImage_resolver w ctx c"]
      show ?thesis by simp
    qed
  next
    case False
    with ref determineImage_by_reference [of ctx c ref w] obtain opts where
      d: "determineImage w ctx c =
             (ResolveReference w (determineImage_resolver w ctx c) opts, c,
              determineImage_advisory w ctx c @
              [(Call_ResolveReference opts,
                snd (ResolveReference w (determineImage_resolver w ctx c) opts))])"
      by blast
    from assms d determineImage_advisory_event [of ev w ctx c] show ?thesis by auto
  qed
qed

lemma determineImage_publish:
  assumes "fetchImageRef ctx (Some c) = Inr ref"
  shows "map ro_Publish (resolve_opts (snd (snd (determineImage w ctx c)))) =
           (if ref \<noteq> [] then [\<not> flag_build_only ctx] else [])"
    and "ref \<noteq> [] \<Longrightarrow> build_opts (snd (snd (determineImage w ctx c))) = []"
    and "x \<in> set (build_opts (snd (snd (determineImage w ctx c)))) \<Longrightarrow>
           io_Publish x = (flag_push ctx \<or> \<not> flag_build_only ctx)"
proof -
  show "map ro_Publish (resolve_opts (snd (snd (determineImage w ctx c)))) =
           (if ref \<noteq> [] then [\<not> flag_build_only ctx] else [])"
  proof (cases "ref = []")
    case True
    with assms determineImage_from_source [of ctx c w] show ?thesis
      by (auto simp: determineImage_build_resolve_opts)
  next
    case False
    with assms determineImage_by_reference [of ctx c ref w] show ?thesis
      by auto
  qed
  show "ref \<noteq> [] \<Longrightarrow> build_opts (snd (snd (determineImage w ctx c))) = []"
    using assms determineImage_by_reference [of ctx c ref w] by auto
  show "x \<in> set (build_opts (snd (snd (determineImage w ctx c)))) \<Longrightarrow>
           io_Publish x = (flag_push ctx \<or> \<not> flag_build_only ctx)"
  proof (cases "ref = []")
    case True
    assume "x \<in> set (build_opts (snd (snd (determineImage w ctx c))))"
    with True assms determineImage_from_source [of ctx c w] show ?thesis
      by (auto dest: determineImage_build_publish)
  next
    case False
    assume "x \<in> set (build_opts (snd (snd (determineImage w ctx c))))"
    with False assms determineImage_by_reference [of ctx c ref w] show ?thesis
      by auto
  qed
qed


section \<open>Records of calls that stop at the first failure\<close>






section \<open>The image determination stops at its first failure\<close>











section \<open>Evaluation on the sample inputs\<close>

lemmas sample_defs = sample_world_def sample_ctx_def sample_config_def sample_build_def
  sample_app_def sample_args_def sample_image_def sample_release_def sample_source_config_def

lemmas model_defs = DeployWithConfig_def useMachines_def determineImage_def
  determineImage_advisory_def determineImage_resolver_def fetchImageRef_def
  determineImage_build_def mergeBuildArgs_def ParseKVStringsToMap_def parseKV_def
  determineImage_paths_def resolveDockerfilePath_def resolveIgnorefilePath_def
  filepath_Abs_def filepath_Dir_def filepath_Clean_def filepath_IsAbs_def
  determineImage_BuildImage_def DeployWithConfig_release_def DeployWithConfig_machines_def
  createRelease_def DeployWithConfig_watch_def new_Build_def error_of_def
  MachinesPlatform_def map_index_def SetEnvVariable_def ReplaceAll_def

section \<open>The publish option and the missing image\<close>

text \<open>
  C10. The publish option handed to the image engine depends on the path. When the image
  reference is not empty, \<open>determineImage\<close> calls \<open>ResolveReference\<close> once, with
  \<open>Publish\<close> equal to (not build-only), whatever the push flag is, and never calls
  \<open>BuildImage\<close>. Every call of \<open>BuildImage\<close> has \<open>Publish\<close> equal to (push or not
  build-only). So with build-only and push both set, a build from source is published
  and a reference is not.
\<close>

theorem publish_option_by_path:
  "fetchImageRef ctx (Some appConfig) = Inr ref \<longrightarrow>
     map ro_Publish (resolve_opts (snd (snd (determineImage w ctx appConfig)))) =
       (if ref \<noteq> [] then [\<not> flag_build_only ctx] else [])
     \<and> (ref \<noteq> [] \<longrightarrow> build_opts (snd (snd (determineImage w ctx appConfig))) = [])
     \<and> (\<forall>x \<in> set (build_opts (snd (snd (determineImage w ctx appConfig)))).
          io_Publish x = (flag_push ctx \<or> \<not> flag_build_only ctx))
     \<and> (flag_build_only ctx \<and> flag_push ctx \<longrightarrow>
          (\<forall>x \<in> set (resolve_opts (snd (snd (determineImage w ctx appConfig)))). \<not> ro_Publish x)
          \<and> (\<forall>x \<in> set (build_opts (snd (snd (determineImage w ctx appConfig)))). io_Publish x))"
proof (intro impI)
  assume r: "fetchImageRef ctx (Some appConfig) = Inr ref"
  note p = determineImage_publish [OF r, where w = w]
  have a: "\<forall>x \<in> set (build_opts (snd (snd (determineImage w ctx appConfig)))).
          io_Publish x = (flag_push ctx \<or> \<not> flag_build_only ctx)"
    using p(3) by blast
  have b: "\<forall>x \<in> set (resolve_opts (snd (snd (determineImage w ctx appConfig)))).
          ro_Publish x = (\<not> flag_build_only ctx)"
  proof
    fix x assume "x \<in> set (resolve_opts (snd (snd (determineImage w ctx appConfig))))"
    then have "ro_Publish x \<in> set (map ro_Publish (resolve_opts (snd (snd (determineImage w ctx appConfig)))))"
      by simp
    with p(1) show "ro_Publish x = (\<not> flag_build_only ctx)"
      by (simp split: if_splits)
  qed
  from p(1) p(2) a b show
    "map ro_Publish (resolve_opts (snd (snd (determineImage w ctx appConfig)))) =
       (if ref \<noteq> [] then [\<not> flag_build_only ctx] else [])
     \<and> (ref \<noteq> [] \<longrightarrow> build_opts (snd (snd (determineImage w ctx appConfig))) = [])
     \<and> (\<forall>x \<in> set (build_opts (snd (snd (determineImage w ctx appConfig)))).
          io_Publish x = (flag_push ctx \<or> \<not> flag_build_only ctx))
     \<and> (flag_build_only ctx \<and> flag_push ctx \<longrightarrow>
          (\<forall>x \<in> set (resolve_opts (snd (snd (determineImage w ctx appConfig)))). \<not> ro_Publish x)
          \<and> (\<forall>x \<in> set (build_opts (snd (snd (determineImage w ctx appConfig)))). io_Publish x))"
    by simp
qed

theorem publish_option_by_path_witness:
  "fetchImageRef (sample_ctx\<lparr>flag_build_only := True, flag_push := True\<rparr>) (Some sample_config) =
     Inr ''registry/web:v1''
   \<and> flag_build_only (sample_ctx\<lparr>flag_build_only := True, flag_push := True\<rparr>)
   \<and> flag_push (sample_ctx\<lparr>flag_build_only := True, flag_push := True\<rparr>)
   \<and> map ro_Publish (resolve_opts (snd (snd (determineImage sample_world
         (sample_ctx\<lparr>flag_build_only := True, flag_push := True\<rparr>) sample_config)))) = [False]
   \<and> build_opts (snd (snd (determineImage sample_world
         (sample_ctx\<lparr>flag_build_only := True, flag_push := True\<rparr>) sample_config))) = []
   \<and> fetchImageRef (sample_ctx\<lparr>flag_build_only := True, flag_push := True\<rparr>)
        (Some sample_source_config) = Inr []
   \<and> map io_Publish (build_opts (snd (snd (determineImage sample_world
         (sample_ctx\<lparr>flag_build_only := True, flag_push := True\<rparr>) sample_source_config)))) = [True]
   \<and> resolve_opts (snd (snd (determineImage sample_world
         (sample_ctx\<lparr>flag_build_only := True, flag_push := True\<rparr>) sample_source_config))) = []"
  using publish_option_by_path
    [of "sample_ctx\<lparr>flag_build_only := True, flag_push := True\<rparr>" sample_config
        "''registry/web:v1''" sample_world]
    publish_option_by_path
    [of "sample_ctx\<lparr>flag_build_only := True, flag_push := True\<rparr>" sample_source_config
        "[]" sample_world]
  by (simp add: model_defs sample_defs Let_def)

text \<open>
  C2. The claim asks that a result without image and without error be turned into the
  error \<open>no image specified\<close> on both paths. The build from source does so: it never
  returns the pair (nil, nil), and with an engine whose \<open>BuildImage\<close> answers (nil, nil)
  the sample run fails with \<open>no image specified\<close>. The path by reference does not: with
  the sample resolver, which answers the reference \<open>registry/web:v1\<close> with (nil, nil),
  \<open>determineImage\<close> returns (nil, nil), and \<open>DeployWithConfig\<close> goes on to
  \<open>createRelease\<close>, where reading \<open>img.Tag\<close> panics.
\<close>

theorem determineImage_reference_nil_image:
  "fst (determineImage sample_world sample_ctx sample_config) = (None, None)
   \<and> fst (DeployWithConfig sample_world sample_ctx sample_config sample_args) = Panic
   \<and> fst (determineImage (sample_world\<lparr>BuildImage := (\<lambda>_ _. (None, None))\<rparr>) sample_ctx
            sample_source_config) = (None, Some (ErrNew ''no image specified''))
   \<and> fst (determineImage_build w ctx c r) \<noteq> (None, None)"
proof (intro conjI)
  show "fst (determineImage sample_world sample_ctx sample_config) = (None, None)"
    by (simp add: model_defs sample_defs Let_def)
  show "fst (DeployWithConfig sample_world sample_ctx sample_config sample_args) = Panic"
    by (simp add: model_defs sample_defs Let_def)
  show "fst (determineImage (sample_world\<lparr>BuildImage := (\<lambda>_ _. (None, None))\<rparr>) sample_ctx
            sample_source_config) = (None, Some (ErrNew ''no image specified''))"
    by (simp add: model_defs sample_defs Let_def)
  show "fst (determineImage_build w ctx c r) \<noteq> (None, None)"
    by (rule determineImage_build_result)
qed

section \<open>Facts about the pipeline\<close>




lemma DeployWithConfig_cases:
  fixes w ctx appConfig args
  defines "name \<equiv> NameFromContext ctx"
  obtains
    (no_app) e where
      "GetAppCompact w name = Inl e"
      "DeployWithConfig w ctx appConfig args =
         (Return (Some e), appConfig, [(Call_GetAppCompact name, Some e)])"
  | (invalid) app e c1 where
      "GetAppCompact w name = Inr app"
      "fst (useMachines w appConfig app args) = Inr True"
      "EnsureV2Config w appConfig = (Some e, c1)"
      "DeployWithConfig w ctx appConfig args =
         (Return (Some (ErrNew (''Can't deploy an invalid app config: '' @ Error_msg e))), c1,
          (Call_GetAppCompact name, None) # snd (useMachines w appConfig app args) @
          [(Call_EnsureV2Config, Some e)])"
  | (image_failed) app b c1 e where
      "GetAppCompact w name = Inr app"
      "fst (useMachines w appConfig app args) = Inr b"
      "if b then EnsureV2Config w appConfig = (None, c1) else c1 = appConfig"
      "snd (fst (determineImage w ctx c1)) = Some e"
      "DeployWithConfig w ctx appConfig args =
         (Return (Some (ErrWrap ''failed to fetch an image or build from source: '' e)),
          fst (snd (determineImage w ctx c1)),
          (Call_GetAppCompact name, None) # snd (useMachines w appConfig app args) @
          (if b then [(Call_EnsureV2Config, None)] else []) @ snd (snd (determineImage w ctx c1)))"
  | (build_only) app b c1 where
      "GetAppCompact w name = Inr app"
      "fst (useMachines w appConfig app args) = Inr b"
      "if b then EnsureV2Config w appConfig = (None, c1) else c1 = appConfig"
      "snd (fst (determineImage w ctx c1)) = None"
      "flag_build_only ctx"
      "DeployWithConfig w ctx appConfig args =
         (Return None, fst (snd (determineImage w ctx c1)),
          (Call_GetAppCompact name, None) # snd (useMachines w appConfig app args) @
          (if b then [(Call_EnsureV2Config, None)] else []) @ snd (snd (determineImage w ctx c1)))"
  | (machines) app c1 where
      "GetAppCompact w name = Inr app"
      "fst (useMachines w appConfig app args) = Inr True"
      "EnsureV2Config w appConfig = (None, c1)"
      "snd (fst (determineImage w ctx c1)) = None"
      "\<not> flag_build_only ctx"
      "DeployWithConfig w ctx appConfig args =
         (fst (DeployWithConfig_machines w ctx (inject_primary_region (fst (snd (determineImage w ctx c1))))
                 app (fst (fst (determineImage w ctx c1)))),
          inject_primary_region (fst (snd (determineImage w ctx c1))),
          (Call_GetAppCompact name, None) # snd (useMachines w appConfig app args) @
          [(Call_EnsureV2Config, None)] @ snd (snd (determineImage w ctx c1)) @
          snd (DeployWithConfig_machines w ctx (inject_primary_region (fst (snd (determineImage w ctx c1))))
                 app (fst (fst (determineImage w ctx c1)))))"
  | (release) app where
      "GetAppCompact w name = Inr app"
      "fst (useMachines w appConfig app args) = Inr False"
      "snd (fst (determineImage w ctx appConfig)) = None"
      "\<not> flag_build_only ctx"
      "DeployWithConfig w ctx appConfig args =
         (fst (DeployWithConfig_release w ctx (inject_primary_region (fst (snd (determineImage w ctx appConfig))))
                 (fst (fst (determineImage w ctx appConfig)))),
          inject_primary_region (fst (snd (determineImage w ctx appConfig))),
          (Call_GetAppCompact name, None) # snd (useMachines w appConfig app args) @
          snd (snd (determineImage w ctx appConfig)) @
          snd (DeployWithConfig_release w ctx (inject_primary_region (fst (snd (determineImage w ctx appConfig))))
                 (fst (fst (determineImage w ctx appConfig)))))"
proof (cases "GetAppCompact w name")
  case (Inl e)
  then show ?thesis
    using no_app by (simp add: DeployWithConfig_def name_def error_of_def)
next
  case (Inr app)
  obtain b where b: "fst (useMachines w appConfig app args) = Inr b"
    by (simp add: useMachines_pair)
  obtain err c1 where ens: "EnsureV2Config w appConfig = (err, c1)"
    by (cases "EnsureV2Config w appConfig")
  note defs = DeployWithConfig_def error_of_def split_beta inject_primary_region_def name_def
  show ?thesis
  proof (cases b)
    case True
    show ?thesis
    proof (cases err)
      case (Some e)
      with Inr b True ens show ?thesis
        using invalid [of app e c1] by (simp add: defs)
    next
      case None
      show ?thesis
      proof (cases "snd (fst (determineImage w ctx c1))")
        case (Some e)
        with Inr b True ens None show ?thesis
          using image_failed [of app True c1 e] by (simp add: defs)
      next
        case noerr: None
        show ?thesis
        proof (cases "flag_build_only ctx")
          case bo: True
          with Inr b True ens None noerr show ?thesis
            using build_only [of app True c1] by (simp add: defs)
        next
          case bo: False
          with Inr b True ens None noerr show ?thesis
            using machines [of app c1] by (simp add: defs Let_def)
        qed
      qed
    qed
  next
    case False
    show ?thesis
    proof (cases "snd (fst (determineImage w ctx appConfig))")
      case (Some e)
      with Inr b False show ?thesis
        using image_failed [of app False appConfig e] by (simp add: defs)
    next
      case noerr: None
      show ?thesis
      proof (cases "flag_build_only ctx")
        case bo: True
        with Inr b False noerr show ?thesis
          using build_only [of app False appConfig] by (simp add: defs)
      next
        case bo: False
        with Inr b False noerr show ?thesis
          using release [of app] by (simp add: defs Let_def)
      qed
    qed
  qed
qed


section \<open>Build-only mode, error propagation, writes to the configuration\<close>

text \<open>
  C8. With build-only requested, no invocation of \<open>DeployWithConfig\<close> calls
  \<open>DeployImage\<close> (the call of \<open>createRelease\<close>), \<open>NewMachineDeployment\<close> or
  \<open>DeployMachinesApp\<close>, and none panics (as \<open>createRelease\<close> does on a nil image, before
  its call). When moreover the application is found, the backend is selected
  (either way), the configuration passes \<open>EnsureV2Config\<close> where the modern backend is
  selected, and \<open>determineImage\<close> returns no error, \<open>DeployWithConfig\<close> returns nil and
  its last calls are those of \<open>determineImage\<close>.
\<close>

theorem build_only_stops_after_image:
  "(flag_build_only ctx \<longrightarrow>
      fst (DeployWithConfig w ctx appConfig args) \<noteq> Panic
      \<and> (\<forall>ev \<in> set (snd (snd (DeployWithConfig w ctx appConfig args))). \<not> backend_call (fst ev)))
   \<and> (flag_build_only ctx
        \<and> GetAppCompact w (NameFromContext ctx) = Inr appCompact
        \<and> fst (useMachines w appConfig appCompact args) = Inr deployToMachines
        \<and> (if deployToMachines then EnsureV2Config w appConfig = (None, c1) else c1 = appConfig)
        \<and> snd (fst (determineImage w ctx c1)) = None
      \<longrightarrow> fst (DeployWithConfig w ctx appConfig args) = Return None
          \<and> snd (snd (DeployWithConfig w ctx appConfig args)) =
              (Call_GetAppCompact (NameFromContext ctx), None) #
              snd (useMachines w appConfig appCompact args) @
              (if deployToMachines then [(Call_EnsureV2Config, None)] else []) @
              snd (snd (determineImage w ctx c1)))"
proof (intro conjI impI)
  assume bo: "flag_build_only ctx"
  show "fst (DeployWithConfig w ctx appConfig args) \<noteq> Panic"
    using bo
    by (cases rule: DeployWithConfig_cases [of w ctx appConfig args]) auto
  show "\<forall>ev \<in> set (snd (snd (DeployWithConfig w ctx appConfig args))). \<not> backend_call (fst ev)"
    using bo
    by (cases rule: DeployWithConfig_cases [of w ctx appConfig args])
      (auto simp: useMachines_pair dest: determineImage_event)
next
  assume h: "flag_build_only ctx
        \<and> GetAppCompact w (NameFromContext ctx) = Inr appCompact
        \<and> fst (useMachines w appConfig appCompact args) = Inr deployToMachines
        \<and> (if deployToMachines then EnsureV2Config w appConfig = (None, c1) else c1 = appConfig)
        \<and> snd (fst (determineImage w ctx c1)) = None"
  show "fst (DeployWithConfig w ctx appConfig args) = Return None"
    using h
    by (cases rule: DeployWithConfig_cases [of w ctx appConfig args])
      (auto split: if_splits)
  show "snd (snd (DeployWithConfig w ctx appConfig args)) =
              (Call_GetAppCompact (NameFromContext ctx), None) #
              snd (useMachines w appConfig appCompact args) @
              (if deployToMachines then [(Call_EnsureV2Config, None)] else []) @
              snd (snd (determineImage w ctx c1))"
    using h
    by (cases rule: DeployWithConfig_cases [of w ctx appConfig args])
      (auto split: if_splits)
qed

theorem build_only_stops_after_image_witness:
  "flag_build_only (sample_ctx\<lparr>flag_build_only := True\<rparr>)
   \<and> GetAppCompact sample_world (NameFromContext (sample_ctx\<lparr>flag_build_only := True\<rparr>)) =
       Inr sample_app
   \<and> fst (useMachines sample_world sample_source_config sample_app sample_args) = Inr False
   \<and> snd (fst (determineImage sample_world (sample_ctx\<lparr>flag_build_only := True\<rparr>)
                 sample_source_config)) = None
   \<and> fst (DeployWithConfig sample_world (sample_ctx\<lparr>flag_build_only := True\<rparr>)
            sample_source_config sample_args) = Return None
   \<and> fst (useMachines sample_world sample_source_config sample_app
            (sample_args\<lparr>ForceMachines := True\<rparr>)) = Inr True
   \<and> EnsureV2Config sample_world sample_source_config = (None, sample_source_config)
   \<and> fst (DeployWithConfig sample_world (sample_ctx\<lparr>flag_build_only := True\<rparr>)
            sample_source_config (sample_args\<lparr>ForceMachines := True\<rparr>)) = Return None
   \<and> list_all (\<lambda>ev. \<not> backend_call (fst ev))
        (snd (snd (DeployWithConfig sample_world (sample_ctx\<lparr>flag_build_only := True\<rparr>)
                     sample_source_config sample_args)))
   \<and> list_ex (\<lambda>ev. backend_call (fst ev))
        (snd (snd (DeployWithConfig sample_world sample_ctx sample_source_config sample_args)))"
  using build_only_stops_after_image
    [of "sample_ctx\<lparr>flag_build_only := True\<rparr>" sample_world sample_source_config sample_args
        sample_app False sample_source_config]
    build_only_stops_after_image
    [of "sample_ctx\<lparr>flag_build_only := True\<rparr>" sample_world sample_source_config
        "sample_args\<lparr>ForceMachines := True\<rparr>" sample_app True sample_source_config]
  by (simp add: model_defs sample_defs Let_def)









end
